theory Spec2Isabelle
  imports Complex_Main
begin

section \<open>Object detection notebook: the IoU and suppression exercises, drawing\<close>

text \<open>
  Boxes are tensors of four numbers in the format (left, top, right, bottom).
  Probabilities and coordinates are modelled as real numbers. The only arithmetic
  that decides a branch below is the comparison of a probability with 0.5.
\<close>

type_synonym rectangle = "real \<times> real \<times> real \<times> real"

text \<open>
  The exceptions that matter below: \<open>IndexError\<close> (the maximum of a vector without
  entries) and \<open>KeyError\<close> (a label without class name). \<open>InvalidInput\<close> is the
  failure that the description of the suppressor names; no code of the notebook
  produces it.
\<close>

datatype error = InvalidInput | IndexError | KeyError nat

subsection \<open>The IoU exercise as the notebook has it\<close>

text \<open>
  \<^verbatim>\<open>torch.empty(n)\<close> hands out a fresh block of \<open>n\<close> slots and leaves its content as
  it was. The content that the block of one call happens to hold is the parameter
  \<open>block\<close> (slot \<open>i\<close> holds \<open>block i\<close>); two calls get two blocks.
\<close>

definition torch_empty :: "(nat \<Rightarrow> 'a) \<Rightarrow> nat \<Rightarrow> 'a list" where
  "torch_empty block n = map block [0..<n]"

text \<open>
  \<^verbatim>\<open>batch_iou\<close>: the result is allocated, the place of the computation holds the
  expression \<^verbatim>\<open>...\<close>, which does nothing, and the result is returned. Neither
  \<open>reference\<close> nor the content of \<open>boxes\<close> is read.
\<close>

definition batch_iou :: "(nat \<Rightarrow> 'a) \<Rightarrow> rectangle \<Rightarrow> rectangle list \<Rightarrow> 'a list" where
  "batch_iou block reference boxes =
     (let result = torch_empty block (length boxes)
      in result)"

text \<open>A block whose every slot holds the same value, for concrete runs.\<close>

definition block_of :: "'a \<Rightarrow> nat \<Rightarrow> 'a" where
  "block_of v i = v"

subsection \<open>The suppression exercise as the notebook has it\<close>

text \<open>
  A value that is either Python's \<^verbatim>\<open>Ellipsis\<close> object or a tensor. The function
  below accepts any objects, since it never looks at its arguments.
\<close>

datatype 'a pyobj = Ellipsis | Tensor 'a

text \<open>
  \<^verbatim>\<open>non_maximum_suppression\<close>: both results are assigned the object \<^verbatim>\<open>...\<close> and
  returned as a pair. There is no check of the arguments, no sort, no IoU and
  no loop, and nothing in the body can raise.
\<close>

definition non_maximum_suppression ::
  "rectangle list pyobj \<Rightarrow> real list list pyobj \<Rightarrow> real \<Rightarrow>
   error + (rectangle list pyobj \<times> real list list pyobj)" where
  "non_maximum_suppression boxes probs iou_threshold =
     (let nms_boxes = Ellipsis; nms_probs = Ellipsis
      in Inr (nms_boxes, nms_probs))"

subsection \<open>Drawing the detections\<close>







subsection \<open>Facts about the exercises\<close>

lemma batch_iou_block: "batch_iou block reference boxes = map block [0..<length boxes]"
  by (simp add: batch_iou_def torch_empty_def)

lemma batch_iou_length: "length (batch_iou block reference boxes) = length boxes"
  by (simp add: batch_iou_block)

lemma batch_iou_ignores_input:
  "length boxes = length boxes' \<Longrightarrow>
   batch_iou block reference boxes = batch_iou block reference' boxes'"
  by (simp add: batch_iou_block)

lemma nms_constant: "non_maximum_suppression boxes probs iou_threshold = Inr (Ellipsis, Ellipsis)"
  by (simp add: non_maximum_suppression_def)

subsection \<open>Facts about drawing\<close>




subsection \<open>Claims about the IoU exercise\<close>

text \<open>
  Claim C2 says that \<open>batch_iou\<close> on the reference (0,0,4,6) and the four fixture
  candidates returns [2/3, 1/9, 0, 0] within 1e-6. The code returns the block it
  allocated, untouched: with a block of zeros the first entry is off by 2/3.
\<close>

theorem batch_iou_fixture_unfilled:
  "batch_iou (block_of 0) (0, 0, 4, 6)
       [(0, 0, 4, 4), (-2, -2, 2, 2), (-4, -4, 0, 0), (-6, -6, -2, -2)]
     = [0, 0, 0, 0 :: real] \<and>
   \<not> \<bar>[0, 0, 0, 0 :: real] ! 0 - 2 / 3\<bar> \<le> 1 / 10 ^ 6"
  by (simp add: batch_iou_def torch_empty_def block_of_def upt_rec)

text \<open>
  Claim C5 says that the result is intersection over union when the union area is
  positive and 0 when it is zero. The code performs no division and returns the
  block as it is: on (0,0,4,6) against (0,0,4,4), where the quotient is 2/3, and
  on the degenerate (1,1,1,1) against itself, where 0 is due, a block holding 1
  gives 1.
\<close>

theorem batch_iou_no_quotient:
  "batch_iou (block_of 1) (0, 0, 4, 6) [(0, 0, 4, 4)] = [1 :: real] \<and>
   batch_iou (block_of 1) (1, 1, 1, 1) [(1, 1, 1, 1)] = [1 :: real]"
  by (simp add: batch_iou_def torch_empty_def block_of_def)

text \<open>
  Claim C6 says that \<open>batch_iou\<close> returns one value per candidate, each in [0, 1].
  The count is right (\<open>batch_iou_length\<close>); the values are the content of the
  block, and a block holding 5 gives 5, outside [0, 1].
\<close>

theorem batch_iou_out_of_range:
  "length (batch_iou (block_of (5 :: real)) (0, 0, 4, 6) [(0, 0, 4, 4)]) = 1 \<and>
   batch_iou (block_of 5) (0, 0, 4, 6) [(0, 0, 4, 4)] = [5 :: real] \<and> \<not> (5 :: real) \<le> 1"
  by (simp add: batch_iou_def torch_empty_def block_of_def)

text \<open>
  Claim C8 says that \<open>batch_iou a [b]\<close> and \<open>batch_iou b [a]\<close> return the same value.
  Each call returns its own untouched block: with a block holding 0 for the first
  call and a block holding 1 for the second, the two values differ.
\<close>

theorem batch_iou_not_symmetric:
  "batch_iou (block_of 0) (0, 0, 4, 6) [(0, 0, 4, 4)] ! 0 = (0 :: real) \<and>
   batch_iou (block_of 1) (0, 0, 4, 4) [(0, 0, 4, 6)] ! 0 = (1 :: real) \<and>
   batch_iou (block_of 0) (0, 0, 4, 6) [(0, 0, 4, 4)] ! 0
     \<noteq> (batch_iou (block_of 1) (0, 0, 4, 4) [(0, 0, 4, 6)] ! 0 :: real)"
  by (simp add: batch_iou_def torch_empty_def block_of_def)

subsection \<open>Claims about the suppression exercise\<close>

text \<open>
  Claim C1 says that the kept detections have pairwise IoU at most the threshold
  and that a candidate whose IoU with the popped box equals the threshold is kept.
  On two boxes with IoU exactly 1/2 and threshold 1/2 the code returns the pair
  of \<^verbatim>\<open>Ellipsis\<close> objects: no detection is kept at all.
\<close>

theorem nms_keeps_nothing:
  "non_maximum_suppression (Tensor [(0, 0, 2, 2), (0, 0, 2, 1)]) (Tensor [[1 / 10], [2 / 10]]) (1 / 2)
     = Inr (Ellipsis, Ellipsis) \<and>
   (Ellipsis :: rectangle list pyobj) \<noteq> Tensor [(0, 0, 2, 2), (0, 0, 2, 1)]"
  by (simp add: non_maximum_suppression_def)

text \<open>
  Claim C3 says that \<open>non_maximum_suppression\<close> fails with \<open>InvalidInput\<close> exactly
  when the lengths differ, the threshold is outside (0, 1] or a probability
  vector is empty. The code checks nothing: on inputs of each kind (one box and
  no vector; thresholds 0 and 2; an empty vector) it returns normally.
\<close>

theorem nms_invalid_input_counterexample:
  "non_maximum_suppression (Tensor [(0, 0, 1, 1)]) (Tensor []) (1 / 2)
     = Inr (Ellipsis, Ellipsis) \<and>
   non_maximum_suppression (Tensor [(0, 0, 1, 1)]) (Tensor [[1 / 4]]) 0
     = Inr (Ellipsis, Ellipsis) \<and>
   non_maximum_suppression (Tensor [(0, 0, 1, 1)]) (Tensor [[1 / 4]]) 2
     = Inr (Ellipsis, Ellipsis) \<and>
   non_maximum_suppression (Tensor [(0, 0, 1, 1)]) (Tensor [[]]) (1 / 2)
     = Inr (Ellipsis, Ellipsis) \<and>
   Inr (Ellipsis, Ellipsis)
     \<noteq> (Inl InvalidInput :: error + (rectangle list pyobj \<times> real list list pyobj))"
  by (simp add: non_maximum_suppression_def)

text \<open>
  Claim C3, as amended. \<open>non_maximum_suppression\<close> does not fail with
  \<open>InvalidInput\<close> when the lengths differ, when the threshold is outside (0, 1]
  or when a probability vector is empty: on these and on all other inputs it
  returns to the caller without raising.
\<close>

theorem nms_never_raises:
  "(\<exists>r. non_maximum_suppression boxes probs iou_threshold = Inr r) \<and>
   (\<forall>e. non_maximum_suppression boxes probs iou_threshold \<noteq> Inl e)"
  by (simp add: non_maximum_suppression_def)

text \<open>
  Claim C4 says that the output is the projection of the input boxes and
  probability vectors at the retained indices, by descending objectness. On three
  disjoint boxes, where all three are due in the order 1, 0, 2, the code returns
  the pair of \<^verbatim>\<open>Ellipsis\<close> objects, which is no sequence at all.
\<close>

theorem nms_no_projection:
  "non_maximum_suppression (Tensor [(0, 0, 1, 1), (5, 5, 6, 6), (10, 10, 11, 11)])
       (Tensor [[1 / 2, 1 / 2], [3 / 4, 1 / 4], [1 / 2, 1 / 2]]) (1 / 2)
     = Inr (Ellipsis, Ellipsis) \<and>
   (Ellipsis :: rectangle list pyobj) \<noteq> Tensor [(5, 5, 6, 6), (0, 0, 1, 1), (10, 10, 11, 11)] \<and>
   (Ellipsis :: real list list pyobj)
     \<noteq> Tensor [[3 / 4, 1 / 4], [1 / 2, 1 / 2], [1 / 2, 1 / 2]]"
  by (simp add: non_maximum_suppression_def)



subsection \<open>Claims about drawing\<close>




end
